theory Spec2Isabelle
  imports Main "HOL-Library.Sublist"
begin

section \<open>Errors\<close>

text \<open>
  Every exception the two modules can raise is a value. The argument of an error is
  the name, key or path it is about; \<open>HTTPError\<close> carries the status code.
\<close>

datatype error =
    ValueError string
  | TypeError string
  | NameError string
  | KeyError string
  | AttributeError string
  | ImportError string
  | FileNotFoundError string
  | IsADirectoryError string
  | JSONDecodeError string
  | HTTPError nat

section \<open>Paths and strings\<close>

text \<open>
  \<open>os.path.join\<close> and \<open>os.path.dirname\<close> as \<open>posixpath\<close> has them: a component
  that starts with the separator replaces what came before it, and a separator is put
  in only when the path so far is non-empty and does not end with one.
\<close>

definition startswith_sep :: "string \<Rightarrow> bool" where
  "startswith_sep b = (case b of [] \<Rightarrow> False | c # _ \<Rightarrow> c = CHR ''/'')"

definition join :: "string \<Rightarrow> string \<Rightarrow> string" where
  "join a b =
     (if startswith_sep b then b
      else if a = [] \<or> last a = CHR ''/'' then a @ b
      else a @ ''/'' @ b)"

text \<open>\<open>join(a, b, c)\<close> runs the same loop over \<open>b\<close> and then \<open>c\<close>.\<close>

definition join3 :: "string \<Rightarrow> string \<Rightarrow> string \<Rightarrow> string" where
  "join3 a b c = join (join a b) c"

definition dirname :: "string \<Rightarrow> string" where
  "dirname p =
     (let head = rev (dropWhile (\<lambda>c. c \<noteq> CHR ''/'') (rev p))
      in if head \<noteq> [] \<and> \<not> list_all (\<lambda>c. c = CHR ''/'') head
         then rev (dropWhile (\<lambda>c. c = CHR ''/'') (rev head))
         else head)"

text \<open>\<open>s.split(".")[0]\<close>: the text before the first dot, all of \<open>s\<close> when it has none.\<close>

definition top_level :: "string \<Rightarrow> string" where
  "top_level s = takeWhile (\<lambda>c. c \<noteq> CHR ''.'') s"

section \<open>Data model\<close>

text \<open>
  A model class, by what the code reads of it: \<open>__module__\<close>, \<open>__view_module__\<close>,
  whether it has an \<open>__implementation__\<close> attribute, and whether it is a subclass of
  \<open>Widget\<close>, \<open>TableWidget\<close> and \<open>Plot\<close>. A model instance has its class, its
  \<open>output_backend\<close> (read of plots only) and an identity. An instance has no attribute
  of its own named \<open>__implementation__\<close> or \<open>__view_module__\<close>: both are read off
  its class.
\<close>

record model_class =
  cls_name :: string
  cls_module :: string
  view_module :: string
  has_implementation :: bool
  is_Widget :: bool
  is_TableWidget :: bool
  is_Plot :: bool

record model =
  model_id :: nat
  model_cls :: model_class
  output_backend :: string

text \<open>
  Of an object passed in \<open>objs\<close> the code only calls \<open>references()\<close> when it is a
  \<open>Model\<close>, and reads \<open>roots\<close> when it is a \<open>Document\<close>, calling \<open>references()\<close>
  on every root. So a \<open>Model\<close> is given by the models its \<open>references()\<close> returns,
  and a \<open>Document\<close> by its roots, each of them given the same way.
\<close>

datatype obj = Model "model list" | Document "model list list"

text \<open>
  A resources object (\<open>BaseResources\<close>), by the attributes the code reads and writes.
  Such an object is truthy: the test \<open>if js_resources\<close> separates it from \<open>None\<close>.
\<close>

record resources =
  mode :: string
  minified :: bool
  js_components :: "string list"

text \<open>The values the \<open>resources\<close> argument can hold.\<close>

datatype pyval =
    PyNone
  | PyStr string
  | PyResources resources
  | PyTuple "pyval list"
  | PyOther

datatype fsnode = File string | Dir

record ExtensionEmbed =
  artifact_path :: string
  server_url :: string
  cdn_url :: "string option"

text \<open>
  What the code takes from outside \<open>bundle.py\<close>: the settings override, the
  \<open>Resources\<close> constructor and the properties of a resources object, the import
  system (\<open>__import__(name).__file__\<close>: nothing when the import fails, \<open>None\<close>
  when the module has no file, as a namespace package), the file system, the JSON parser, the registry
  of model classes (\<open>Model.model_class_reverse_map.values()\<close>, in iteration order),
  \<open>bundle_models\<close>, and the constant \<open>DEFAULT_SERVER_HTTP_URL\<close>.
  The parsed metadata is a dictionary from field names to strings.
\<close>

record env =
  settings_override :: "string option"
  Resources_init :: "string \<Rightarrow> error + resources"
  res_js_files :: "resources \<Rightarrow> string list"
  res_js_raw :: "resources \<Rightarrow> string list"
  res_css_files :: "resources \<Rightarrow> string list"
  res_css_raw :: "resources \<Rightarrow> string list"
  res_hashes :: "resources \<Rightarrow> (string \<rightharpoonup> string)"
  module_file :: "string \<rightharpoonup> string option"
  fs :: "string \<rightharpoonup> fsnode"
  json_loads :: "string \<Rightarrow> (string \<rightharpoonup> string) option"
  model_class_reverse_map :: "model_class list"
  bundle_models :: "model_class list option \<Rightarrow> string option"
  DEFAULT_SERVER_HTTP_URL :: string

section \<open>File system\<close>

definition exists :: "env \<Rightarrow> string \<Rightarrow> bool" where
  "exists e p = (fs e p \<noteq> None)"

definition read_file :: "(string \<rightharpoonup> fsnode) \<Rightarrow> string \<Rightarrow> error + string" where
  "read_file files p =
     (case files p of
        None \<Rightarrow> Inl (FileNotFoundError p)
      | Some Dir \<Rightarrow> Inl (IsADirectoryError p)
      | Some (File s) \<Rightarrow> Inr s)"

text \<open>\<open>json.load(io)\<close> on the opened metadata file.\<close>

definition json_load :: "env \<Rightarrow> string \<Rightarrow> error + (string \<rightharpoonup> string)" where
  "json_load e p =
     (case read_file (fs e) p of
        Inl err \<Rightarrow> Inl err
      | Inr s \<Rightarrow> (case json_loads e s of None \<Rightarrow> Inl (JSONDecodeError p) | Some pkg \<Rightarrow> Inr pkg))"

section \<open>The extension resolver\<close>

text \<open>
  The test \<open>exists(artifact)\<close> of the branch without metadata reads the name
  \<open>artifact\<close>. The function binds \<open>artifact_path\<close>, never \<open>artifact\<close>; the module
  has no global of that name and Python no builtin. Evaluating the test raises
  \<open>NameError\<close> before \<open>exists\<close> is called.
\<close>

definition exists_artifact :: "env \<Rightarrow> error + bool" where
  "exists_artifact e = Inl (NameError ''artifact'')"

text \<open>
  The \<open>for ext in extensions: ... else: raise ValueError\<close> loop. It returns the
  \<open>artifact_path\<close> and \<open>server_path\<close> bound when the loop breaks.
\<close>

fun find_artifact :: "env \<Rightarrow> string \<Rightarrow> string \<Rightarrow> string list \<Rightarrow> error + (string \<times> string)" where
  "find_artifact e base name [] = Inl (ValueError name)"
| "find_artifact e base name (ext # exts) =
     (let a_path = join3 base ''dist'' (name @ ext);
          s_path = name @ ''@latest/dist/'' @ name @ ext
      in case exists_artifact e of
           Inl err \<Rightarrow> Inl err
         | Inr True \<Rightarrow> Inr (a_path, s_path)
         | Inr False \<Rightarrow> find_artifact e base name exts)"

text \<open>
  The body of the loop of \<open>_bundle_extensions\<close> for one new package name, up to the
  point where \<open>artifact_path\<close>, \<open>server_path\<close> and \<open>cdn_url\<close> are bound.
  \<open>pkg.get("module", pkg["main"])\<close> evaluates \<open>pkg["main"]\<close> before the call.
\<close>

definition resolve_package ::
  "env \<Rightarrow> string list \<Rightarrow> string \<Rightarrow> error + (string \<times> string \<times> string option)" where
  "resolve_package e extensions name =
     (case module_file e name of
        None \<Rightarrow> Inl (ImportError name)
      | Some None \<Rightarrow> Inl (TypeError ''dirname'')
      | Some (Some file) \<Rightarrow>
          (let base = dirname file;
               package_path = join base ''package.json''
           in if exists e package_path then
                (case json_load e package_path of
                   Inl err \<Rightarrow> Inl err
                 | Inr pkg \<Rightarrow>
                    (case pkg ''name'' of
                       None \<Rightarrow> Inl (KeyError ''name'')
                     | Some pkg_name \<Rightarrow>
                        (let version = (case pkg ''version'' of None \<Rightarrow> ''latest'' | Some v \<Rightarrow> v)
                         in case pkg ''main'' of
                              None \<Rightarrow> Inl (KeyError ''main'')
                            | Some dflt \<Rightarrow>
                               (let main = (case pkg ''module'' of None \<Rightarrow> dflt | Some m \<Rightarrow> m)
                                in Inr (join base main,
                                        pkg_name @ ''@^'' @ version @ ''/'' @ main,
                                        Some (''https://unpkg.com/'' @ pkg_name @ ''@^'' @ version @ ''/'' @ main))))))
              else
                (case find_artifact e base name extensions of
                   Inl err \<Rightarrow> Inl err
                 | Inr (a_path, s_path) \<Rightarrow> Inr (a_path, s_path, None))))"

text \<open>
  The loop over the candidates. The state of the loop is the set \<open>names\<close>, the list
  \<open>bundles\<close> and the registry \<open>servables\<close>; an exception leaves the registry as the
  earlier iterations wrote it.
\<close>

fun extensions_loop ::
  "env \<Rightarrow> string list \<Rightarrow> model_class list \<Rightarrow> string set \<Rightarrow> ExtensionEmbed list \<Rightarrow>
   (string \<rightharpoonup> string) \<Rightarrow> (error + ExtensionEmbed list) \<times> (string \<rightharpoonup> string)" where
  "extensions_loop e extensions [] names bundles servables = (Inr bundles, servables)"
| "extensions_loop e extensions (c # cs) names bundles servables =
     (if has_implementation c then extensions_loop e extensions cs names bundles servables
      else
        let name = top_level (view_module c)
        in if name = ''bokeh'' then extensions_loop e extensions cs names bundles servables
           else if name \<in> names then extensions_loop e extensions cs names bundles servables
           else
             (case resolve_package e extensions name of
                Inl err \<Rightarrow> (Inl err, servables)
              | Inr (a_path, s_path, c_url) \<Rightarrow>
                  (let s_url = DEFAULT_SERVER_HTTP_URL e @ ''static/extensions'' @ ''/'' @ s_path;
                       embed = \<lparr>artifact_path = a_path, server_url = s_url, cdn_url = c_url\<rparr>
                   in extensions_loop e extensions cs (insert name names) (bundles @ [embed])
                        (servables(s_path \<mapsto> a_path)))))"

text \<open>
  \<open>_all_objs\<close>: the union of the \<open>references()\<close> of every model and of every root of
  every document. A Python set has no defined iteration order; the list keeps the
  order of insertion, and nothing proved below depends on which order it is.
\<close>

definition set_union :: "'a list \<Rightarrow> 'a list \<Rightarrow> 'a list" where
  "set_union acc xs = fold (\<lambda>x ys. if x \<in> set ys then ys else ys @ [x]) xs acc"

fun all_objs_from :: "model list \<Rightarrow> obj list \<Rightarrow> model list" where
  "all_objs_from acc [] = acc"
| "all_objs_from acc (Document roots # objs) = all_objs_from (fold (\<lambda>root ys. set_union ys root) roots acc) objs"
| "all_objs_from acc (Model refs # objs) = all_objs_from (set_union acc refs) objs"

definition all_objs :: "obj list \<Rightarrow> model list" where
  "all_objs objs = all_objs_from [] objs"

definition bundle_extensions ::
  "env \<Rightarrow> obj list option \<Rightarrow> resources \<Rightarrow> (string \<rightharpoonup> string) \<Rightarrow>
   (error + ExtensionEmbed list) \<times> (string \<rightharpoonup> string)" where
  "bundle_extensions e objs res servables =
     (let extensions = (if minified res then [''.min.js'', ''.js''] else [''.js''])
      in extensions_loop e extensions
           (case objs of Some os \<Rightarrow> map model_cls (all_objs os) | None \<Rightarrow> model_class_reverse_map e)
           {} [] servables)"

section \<open>Feature detection\<close>

text \<open>
  \<open>_any\<close>: the roots of a document are models, so the recursive call on
  \<open>obj.roots\<close> meets the second branch for each of them.
\<close>

fun weight :: "obj \<Rightarrow> nat" where
  "weight (Model refs) = 1"
| "weight (Document roots) = length roots + 2"

function any_obj :: "obj list \<Rightarrow> (model \<Rightarrow> bool) \<Rightarrow> bool" where
  "any_obj [] query = False"
| "any_obj (Document roots # objs) query =
     (if any_obj (map Model roots) query then True else any_obj objs query)"
| "any_obj (Model refs # objs) query =
     (if list_ex query refs then True else any_obj objs query)"
  by pat_completeness auto
termination
proof (relation "measure (\<lambda>(objs, query). sum_list (map weight objs))")
  fix roots :: "model list list" and objs :: "obj list" and query :: "model \<Rightarrow> bool"
  have "sum_list (map (weight \<circ> Model) roots) = length roots"
    by (induction roots) auto
  then show "((map Model roots, query), Document roots # objs, query)
             \<in> measure (\<lambda>(objs, query). sum_list (map weight objs))"
    by simp
qed auto

text \<open>
  \<open>_query_extensions\<close>: for every new third-party package name among the referenced
  objects, the registered classes whose \<open>__module__\<close> starts with the name are tested.
\<close>

fun query_loop :: "env \<Rightarrow> (model_class \<Rightarrow> bool) \<Rightarrow> model list \<Rightarrow> string set \<Rightarrow> bool" where
  "query_loop e query [] names = False"
| "query_loop e query (obj # objs) names =
     (if has_implementation (model_cls obj) then query_loop e query objs names
      else
        let name = top_level (view_module (model_cls obj))
        in if name = ''bokeh'' then query_loop e query objs names
           else if name \<in> names then query_loop e query objs names
           else if list_ex (\<lambda>c. prefix name (cls_module c) \<and> query c) (model_class_reverse_map e)
                then True
                else query_loop e query objs (insert name names))"

definition query_extensions :: "env \<Rightarrow> obj list \<Rightarrow> (model_class \<Rightarrow> bool) \<Rightarrow> bool" where
  "query_extensions e objs query = query_loop e query (all_objs objs) {}"

definition ext_use_tables :: "env \<Rightarrow> obj list \<Rightarrow> bool" where
  "ext_use_tables e objs = query_extensions e objs is_TableWidget"

definition ext_use_widgets :: "env \<Rightarrow> obj list \<Rightarrow> bool" where
  "ext_use_widgets e objs = query_extensions e objs is_Widget"

definition webgl_plot :: "model \<Rightarrow> bool" where
  "webgl_plot obj = (is_Plot (model_cls obj) \<and> output_backend obj = ''webgl'')"

definition use_gl :: "obj list \<Rightarrow> bool" where
  "use_gl objs = any_obj objs webgl_plot"

definition use_tables :: "env \<Rightarrow> obj list \<Rightarrow> bool" where
  "use_tables e objs = (any_obj objs (\<lambda>obj. is_TableWidget (model_cls obj)) \<or> ext_use_tables e objs)"

definition use_widgets :: "env \<Rightarrow> obj list \<Rightarrow> bool" where
  "use_widgets e objs = (any_obj objs (\<lambda>obj. is_Widget (model_cls obj)) \<or> ext_use_widgets e objs)"

text \<open>
  \<open>_use_widgets(objs) if objs else True\<close> and its two siblings: \<open>objs\<close> is falsy
  when it is \<open>None\<close> and when it is empty. The triple is
  \<open>(use_widgets, use_tables, use_gl)\<close>.
\<close>

definition feature_flags :: "env \<Rightarrow> obj list option \<Rightarrow> bool \<times> bool \<times> bool" where
  "feature_flags e objs =
     (case objs of
        Some (x # xs) \<Rightarrow> (use_widgets e (x # xs), use_tables e (x # xs), use_gl (x # xs))
      | _ \<Rightarrow> (True, True, True))"

section \<open>The bundle\<close>

record Bundle =
  js_files :: "string option list"
  js_raw :: "string list"
  css_files :: "string list"
  css_raw :: "string list"
  hashes :: "(string \<rightharpoonup> string) option"

text \<open>
  The contents of a bundle, as \<open>bundle_for_objs_and_resources\<close> returns it. An entry
  of \<open>js_files\<close> is a string or \<open>None\<close>: under mode \<open>cdn\<close> the list takes the
  \<open>cdn_url\<close> of every extension, which is \<open>Optional[str]\<close>.
\<close>

text \<open>
  A \<open>Bundle\<close> object keeps the list objects its constructor is given, without copying
  them, and \<open>add\<close> appends in place. So the lists live in a store, by identity, and
  the four list attributes of the object are references into it: two attributes may
  hold one list. The \<open>hashes\<close> attribute refers to a dictionary, or is \<open>None\<close>.
\<close>

type_synonym ref = nat

record store =
  lists :: "ref \<Rightarrow> string option list"
  dicts :: "ref \<Rightarrow> (string \<rightharpoonup> string)"

record Bundle_object =
  js_files_ref :: ref
  js_raw_ref :: ref
  css_files_ref :: ref
  css_raw_ref :: ref
  hashes_ref :: "ref option"

datatype artifact =
    ScriptRef string string
  | Script string string
  | StyleRef string
  | Style string
  | OtherArtifact

text \<open>\<open>xs.append(x)\<close> on the list object at a reference.\<close>

definition list_append :: "store \<Rightarrow> ref \<Rightarrow> string option \<Rightarrow> store" where
  "list_append st r x = st\<lparr>lists := (lists st)(r := lists st r @ [x])\<rparr>"

text \<open>
  \<open>Bundle.add\<close>: it binds no attribute of \<open>self\<close>, so the object is as it was and
  the store is what changes. The chain of \<open>isinstance\<close> tests has no \<open>else\<close>.
\<close>

fun add :: "store \<Rightarrow> Bundle_object \<Rightarrow> artifact \<Rightarrow> store" where
  "add st self (ScriptRef url type) = list_append st (js_files_ref self) (Some url)"
| "add st self (Script content type) = list_append st (js_raw_ref self) (Some content)"
| "add st self (StyleRef url) = list_append st (css_files_ref self) (Some url)"
| "add st self (Style content) = list_append st (css_raw_ref self) (Some content)"
| "add st self OtherArtifact = st"

section \<open>Bundle assembly\<close>

text \<open>
  The state of a call: the warnings emitted so far and the registry \<open>servables\<close>
  from served path to file-system path.
\<close>

record state =
  warnings :: "string list"
  servables :: "string \<rightharpoonup> string"

definition warn :: "string \<Rightarrow> state \<Rightarrow> state" where
  "warn msg s = s\<lparr>warnings := warnings s @ [msg]\<rparr>"

text \<open>
  Modelled from the spec: \<open>settings.resources\<close> is not among the sources. The comment
  at its call says that an environment setting overrides the default passed in; the
  setting is a string.
\<close>

definition settings_resources :: "env \<Rightarrow> pyval \<Rightarrow> pyval" where
  "settings_resources e dflt = (case settings_override e of Some m \<Rightarrow> PyStr m | None \<Rightarrow> dflt)"

definition coerce_resources :: "env \<Rightarrow> pyval \<Rightarrow> error + pyval" where
  "coerce_resources e r =
     (case r of
        PyStr m \<Rightarrow> (case Resources_init e m of Inl err \<Rightarrow> Inl err | Inr res \<Rightarrow> Inr (PyResources res))
      | _ \<Rightarrow> Inr r)"

definition resources_or_none :: "pyval \<Rightarrow> bool" where
  "resources_or_none r = (case r of PyNone \<Rightarrow> True | PyResources _ \<Rightarrow> True | _ \<Rightarrow> False)"

definition as_option :: "pyval \<Rightarrow> resources option" where
  "as_option r = (case r of PyResources res \<Rightarrow> Some res | _ \<Rightarrow> None)"

definition CSS_WARNING :: string where
  "CSS_WARNING = ''No Bokeh CSS Resources provided to template. If required you will need to provide them manually.''"

definition JS_WARNING :: string where
  "JS_WARNING = ''No Bokeh JS Resources provided to template. If required you will need to provide them manually.''"

text \<open>
  Line 150: the message is built with \<open>"... %r" % resources\<close>. When \<open>resources\<close> is
  a tuple its items are the arguments of the format, and any number of items but one
  raises \<open>TypeError\<close> before \<open>ValueError\<close> is raised.
\<close>

definition bad_resources :: "pyval \<Rightarrow> error" where
  "bad_resources r =
     (case r of
        PyTuple rs \<Rightarrow>
          if length rs = 1 then ValueError ''expected Resources or a pair of optional Resources''
          else TypeError ''string formatting''
      | _ \<Rightarrow> ValueError ''expected Resources or a pair of optional Resources'')"

text \<open>Lines 139 to 150: the script provider and the style provider of the configuration.\<close>

fun select_resources ::
  "pyval \<Rightarrow> state \<Rightarrow> (error + (resources option \<times> resources option)) \<times> state" where
  "select_resources PyNone s = (Inr (None, None), s)"
| "select_resources (PyResources r) s = (Inr (Some r, Some r), s)"
| "select_resources (PyTuple rs) s =
     (if length rs = 2 \<and> list_all resources_or_none rs then
        (let js_resources = as_option (rs ! 0);
             css_resources = as_option (rs ! 1);
             s1 = (if js_resources \<noteq> None \<and> css_resources = None then warn CSS_WARNING s else s);
             s2 = (if css_resources \<noteq> None \<and> js_resources = None then warn JS_WARNING s1 else s1)
         in (Inr (js_resources, css_resources), s2))
      else (Inl (bad_resources (PyTuple rs)), s))"
| "select_resources r s = (Inl (bad_resources r), s)"

text \<open>Lines 166 to 171, on the copy of the script provider: \<open>list.remove\<close> takes out the first occurrence.\<close>

definition remove_component :: "bool \<Rightarrow> string \<Rightarrow> resources \<Rightarrow> resources" where
  "remove_component used c r =
     (if \<not> used \<and> c \<in> set (js_components r)
      then r\<lparr>js_components := remove1 c (js_components r)\<rparr> else r)"

definition prune :: "bool \<times> bool \<times> bool \<Rightarrow> resources \<Rightarrow> resources" where
  "prune flags r =
     (case flags of (u_widgets, u_tables, u_gl) \<Rightarrow>
        remove_component u_gl ''bokeh-gl''
          (remove_component u_tables ''bokeh-tables''
            (remove_component u_widgets ''bokeh-widgets'' r)))"

text \<open>
  Modelled from the spec: \<open>Resources._inline\<close> is not among the sources. Under mode
  \<open>inline\<close> the assembler "reads the artifact file's bytes and appends as raw
  content".
\<close>

definition Resources_inline :: "env \<Rightarrow> string \<Rightarrow> error + string" where
  "Resources_inline e path = read_file (fs e) path"

fun inline_all :: "env \<Rightarrow> string list \<Rightarrow> error + string list" where
  "inline_all e [] = Inr []"
| "inline_all e (p # ps) =
     (case Resources_inline e p of
        Inl err \<Rightarrow> Inl err
      | Inr content \<Rightarrow> (case inline_all e ps of Inl err \<Rightarrow> Inl err | Inr rest \<Rightarrow> Inr (content # rest)))"

text \<open>
  \<open>resources.mode if resources is not None else "inline"\<close>, read off the
  \<open>resources\<close> argument itself: a tuple has no attribute \<open>mode\<close>.
\<close>

definition get_mode :: "pyval \<Rightarrow> error + string" where
  "get_mode resources =
     (case resources of
        PyNone \<Rightarrow> Inr ''inline''
      | PyResources r \<Rightarrow> Inr (mode r)
      | _ \<Rightarrow> Inl (AttributeError ''mode''))"

text \<open>
  Lines 181 to 191: what the extensions add to \<open>js_files\<close> and to \<open>js_raw\<close>.
\<close>

definition extension_scripts ::
  "env \<Rightarrow> obj list option \<Rightarrow> pyval \<Rightarrow> resources option \<Rightarrow> state \<Rightarrow>
   (error + (string option list \<times> string list)) \<times> state" where
  "extension_scripts e objs resources js_resources s =
     (case js_resources of
        None \<Rightarrow> (Inr ([], []), s)
      | Some jr \<Rightarrow>
          (case bundle_extensions e objs jr (servables s) of
             (Inl err, reg) \<Rightarrow> (Inl err, s\<lparr>servables := reg\<rparr>)
           | (Inr extensions, reg) \<Rightarrow>
               (case get_mode resources of
                  Inl err \<Rightarrow> (Inl err, s\<lparr>servables := reg\<rparr>)
                | Inr m \<Rightarrow>
                    if m = ''inline'' then
                      (case inline_all e (map artifact_path extensions) of
                         Inl err \<Rightarrow> (Inl err, s\<lparr>servables := reg\<rparr>)
                       | Inr contents \<Rightarrow> (Inr ([], contents), s\<lparr>servables := reg\<rparr>))
                    else if m = ''server'' then
                      (Inr (map (\<lambda>b. Some (server_url b)) extensions, []), s\<lparr>servables := reg\<rparr>)
                    else if m = ''cdn'' then
                      (Inr (map cdn_url extensions, []), s\<lparr>servables := reg\<rparr>)
                    else
                      (Inr (map (\<lambda>b. Some (artifact_path b)) extensions, []), s\<lparr>servables := reg\<rparr>))))"

text \<open>Lines 193 to 196: the generated code of the referenced classes, when there is any.\<close>

definition implementation_code :: "env \<Rightarrow> obj list option \<Rightarrow> string list" where
  "implementation_code e objs =
     (let models = (case objs of
                      Some (x # xs) \<Rightarrow> Some (map model_cls (all_objs (x # xs)))
                    | _ \<Rightarrow> None)
      in case bundle_models e models of None \<Rightarrow> [] | Some ext \<Rightarrow> [ext])"

definition bundle_for_objs_and_resources ::
  "env \<Rightarrow> obj list option \<Rightarrow> pyval \<Rightarrow> state \<Rightarrow> (error + Bundle) \<times> state" where
  "bundle_for_objs_and_resources e objs resources_arg s =
     (case coerce_resources e (settings_resources e resources_arg) of
        Inl err \<Rightarrow> (Inl err, s)
      | Inr resources \<Rightarrow>
          (case select_resources resources s of
             (Inl err, s1) \<Rightarrow> (Inl err, s1)
           | (Inr (js_res, css_res), s1) \<Rightarrow>
               (let js_resources = map_option (prune (feature_flags e objs)) js_res;
                    files = (case js_resources of None \<Rightarrow> [] | Some r \<Rightarrow> map Some (res_js_files e r));
                    raw = (case js_resources of None \<Rightarrow> [] | Some r \<Rightarrow> res_js_raw e r);
                    styles = (case css_res of None \<Rightarrow> [] | Some r \<Rightarrow> res_css_files e r);
                    styles_raw = (case css_res of None \<Rightarrow> [] | Some r \<Rightarrow> res_css_raw e r)
                in case extension_scripts e objs resources js_resources s1 of
                     (Inl err, s2) \<Rightarrow> (Inl err, s2)
                   | (Inr (more_files, more_raw), s2) \<Rightarrow>
                       (Inr \<lparr>js_files = files @ more_files,
                             js_raw = raw @ more_raw @ implementation_code e objs,
                             css_files = styles,
                             css_raw = styles_raw,
                             hashes = map_option (res_hashes e) js_resources\<rparr>, s2))))"

section \<open>The blob handler\<close>

text \<open>
  A handler holds the registry it was built with, the headers set so far and the
  bytes written so far. \<open>get\<close> opens the file before it sets the header.
\<close>

record BlobHandler =
  blobs :: "string \<rightharpoonup> string"
  headers :: "string \<rightharpoonup> string"
  written :: string

definition get :: "(string \<rightharpoonup> fsnode) \<Rightarrow> BlobHandler \<Rightarrow> string \<Rightarrow> error + BlobHandler" where
  "get files self path =
     (case blobs self path of
        Some a_path \<Rightarrow>
          (case read_file files a_path of
             Inl err \<Rightarrow> Inl err
           | Inr content \<Rightarrow>
               Inr (self\<lparr>headers := (headers self)(''Content-Type'' \<mapsto> ''application/octet-stream''),
                         written := written self @ content\<rparr>))
      | None \<Rightarrow> Inl (HTTPError 404))"

section \<open>The resolver's contract, in the words of the specification\<close>

text \<open>
  A candidate is resolved when it carries no inline implementation and its top-level
  package is not the core package. \<open>package_names\<close> lists the top-level package
  names of such candidates, each once, in the order of first occurrence.
\<close>

definition eligible :: "model_class \<Rightarrow> bool" where
  "eligible c = (\<not> has_implementation c \<and> top_level (view_module c) \<noteq> ''bokeh'')"

fun fresh_names :: "string set \<Rightarrow> string list \<Rightarrow> string list" where
  "fresh_names seen [] = []"
| "fresh_names seen (n # ns) =
     (if n \<in> seen then fresh_names seen ns else n # fresh_names (insert n seen) ns)"

definition package_names :: "model_class list \<Rightarrow> string list" where
  "package_names cands = fresh_names {} (map (\<lambda>c. top_level (view_module c)) (filter eligible cands))"

text \<open>
  The descriptor of a package: \<open>serverUrl\<close> is the server's base URL, then
  \<open>static/extensions/\<close>, then the server path.
\<close>

definition embed_of :: "env \<Rightarrow> string \<times> string \<times> string option \<Rightarrow> ExtensionEmbed" where
  "embed_of e t =
     (case t of (a_path, s_path, c_url) \<Rightarrow>
        \<lparr>artifact_path = a_path,
         server_url = DEFAULT_SERVER_HTTP_URL e @ ''static/extensions/'' @ s_path,
         cdn_url = c_url\<rparr>)"

definition describe :: "env \<Rightarrow> string list \<Rightarrow> string \<Rightarrow> error + ExtensionEmbed" where
  "describe e extensions name = map_sum id (embed_of e) (resolve_package e extensions name)"

text \<open>
  The models an object refers to, and the features of the specification: a referenced
  model needs an optional subsystem when it is a widget, a table widget or a plot drawn
  with the \<open>webgl\<close> backend; a referenced model of a third-party package brings in
  every registered class whose module name starts with the package name.
\<close>

fun refs_of :: "obj \<Rightarrow> model set" where
  "refs_of (Model refs) = set refs"
| "refs_of (Document roots) = \<Union> (set ` set roots)"

definition needs_optional :: "model \<Rightarrow> bool" where
  "needs_optional m = (is_Widget (model_cls m) \<or> is_TableWidget (model_cls m) \<or> webgl_plot m)"

definition defines_in_package :: "env \<Rightarrow> (model_class \<Rightarrow> bool) \<Rightarrow> model \<Rightarrow> bool" where
  "defines_in_package e query m =
     (eligible (model_cls m) \<and>
      list_ex (\<lambda>c. prefix (top_level (view_module (model_cls m))) (cls_module c) \<and> query c)
        (model_class_reverse_map e))"

definition optional_components :: "string set" where
  "optional_components = {''bokeh-widgets'', ''bokeh-tables'', ''bokeh-gl''}"

text \<open>The script provider of a configuration: \<open>js_resources\<close> after line 150.\<close>

definition script_provider :: "env \<Rightarrow> pyval \<Rightarrow> state \<Rightarrow> resources option" where
  "script_provider e arg s =
     (case coerce_resources e (settings_resources e arg) of
        Inl err \<Rightarrow> None
      | Inr resources \<Rightarrow>
          (case select_resources resources s of
             (Inl err, s1) \<Rightarrow> None
           | (Inr (js_res, css_res), s1) \<Rightarrow> js_res))"

section \<open>Concrete installations\<close>

text \<open>An installation with no third-party package, no registered class and no override.\<close>

definition base_env :: env where
  "base_env =
     \<lparr>settings_override = None,
      Resources_init = (\<lambda>m. Inr \<lparr>mode = m, minified = True,
                                   js_components = [''bokeh'', ''bokeh-widgets'', ''bokeh-tables'', ''bokeh-gl'']\<rparr>),
      res_js_files = (\<lambda>r. map (\<lambda>c. c @ ''.min.js'') (js_components r)),
      res_js_raw = (\<lambda>r. []),
      res_css_files = (\<lambda>r. []),
      res_css_raw = (\<lambda>r. []),
      res_hashes = (\<lambda>r. Map.empty),
      module_file = Map.empty,
      fs = Map.empty,
      json_loads = (\<lambda>s. None),
      model_class_reverse_map = [],
      bundle_models = (\<lambda>ms. None),
      DEFAULT_SERVER_HTTP_URL = ''http://localhost:5006/''\<rparr>"

text \<open>A class that is no widget, table or plot, defined in the given module, and an instance of a class.\<close>

definition plain_class :: "string \<Rightarrow> string \<Rightarrow> model_class" where
  "plain_class nm module =
     \<lparr>cls_name = nm, cls_module = module, view_module = module, has_implementation = False,
      is_Widget = False, is_TableWidget = False, is_Plot = False\<rparr>"

definition model_of :: "nat \<Rightarrow> model_class \<Rightarrow> model" where
  "model_of i c = \<lparr>model_id = i, model_cls = c, output_backend = ''canvas''\<rparr>"

definition minified_resources :: resources where
  "minified_resources = \<lparr>mode = ''cdn'', minified = True,
     js_components = [''bokeh'', ''bokeh-widgets'', ''bokeh-tables'', ''bokeh-gl'']\<rparr>"

text \<open>Package \<open>foo\<close> with metadata: name \<open>foo\<close>, version \<open>1.2.0\<close>, main \<open>dist/foo.js\<close>.\<close>

definition foo_pkg :: "string \<rightharpoonup> string" where
  "foo_pkg = [''name'' \<mapsto> ''foo'', ''version'' \<mapsto> ''1.2.0'', ''main'' \<mapsto> ''dist/foo.js'']"

definition foo_env :: env where
  "foo_env = base_env
     \<lparr>module_file := [''foo'' \<mapsto> Some ''/site/foo/__init__.py''],
      fs := [''/site/foo/package.json'' \<mapsto> File ''foo metadata'',
             ''/site/foo/dist/foo.js'' \<mapsto> File ''export default 1''],
      json_loads := [''foo metadata'' \<mapsto> foo_pkg]\<rparr>"

text \<open>Package \<open>foo\<close> with metadata that declares \<open>module\<close> and no \<open>main\<close>.\<close>

definition esm_pkg :: "string \<rightharpoonup> string" where
  "esm_pkg = [''name'' \<mapsto> ''foo'', ''version'' \<mapsto> ''1.2.0'', ''module'' \<mapsto> ''dist/foo.mjs'']"

definition esm_env :: env where
  "esm_env = base_env
     \<lparr>module_file := [''foo'' \<mapsto> Some ''/site/foo/__init__.py''],
      fs := [''/site/foo/package.json'' \<mapsto> File ''foo metadata''],
      json_loads := [''foo metadata'' \<mapsto> esm_pkg]\<rparr>"

text \<open>Package \<open>foo\<close> with metadata that declares both \<open>main\<close> and \<open>module\<close>.\<close>

definition dual_pkg :: "string \<rightharpoonup> string" where
  "dual_pkg = [''name'' \<mapsto> ''foo'', ''version'' \<mapsto> ''1.2.0'', ''main'' \<mapsto> ''dist/foo.js'',
               ''module'' \<mapsto> ''dist/foo.mjs'']"

definition dual_env :: env where
  "dual_env = base_env
     \<lparr>module_file := [''foo'' \<mapsto> Some ''/site/foo/__init__.py''],
      fs := [''/site/foo/package.json'' \<mapsto> File ''foo metadata''],
      json_loads := [''foo metadata'' \<mapsto> dual_pkg]\<rparr>"

text \<open>Package \<open>bar\<close> without metadata: with \<open>dist/bar.js\<close> only, and with nothing.\<close>

definition bar_env :: env where
  "bar_env = base_env
     \<lparr>module_file := [''bar'' \<mapsto> Some ''/site/bar/__init__.py''],
      fs := [''/site/bar/dist/bar.js'' \<mapsto> File ''bar script'']\<rparr>"

definition bare_env :: env where
  "bare_env = base_env\<lparr>module_file := [''bar'' \<mapsto> Some ''/site/bar/__init__.py'']\<rparr>"

definition foo_objs :: "obj list" where
  "foo_objs = [Model [model_of 1 (plain_class ''FooGlyph'' ''foo.models'')]]"

definition bar_objs :: "obj list" where
  "bar_objs = [Model [model_of 1 (plain_class ''BarGlyph'' ''bar.models'')]]"

text \<open>
  Four referenced models: two of package \<open>foo\<close>, one of the core package and
  one with an inline implementation; and a handler whose registry serves one file.
\<close>

definition mixed_objs :: "obj list" where
  "mixed_objs =
     [Model [model_of 1 (plain_class ''FooGlyph'' ''foo.models''),
             model_of 2 (plain_class ''Circle'' ''bokeh.models.glyphs''),
             model_of 3 ((plain_class ''Custom'' ''custom'')\<lparr>has_implementation := True\<rparr>),
             model_of 4 (plain_class ''FooTool'' ''foo.tools'')]]"

definition foo_handler :: BlobHandler where
  "foo_handler = \<lparr>blobs = [''foo@^1.2.0/dist/foo.js'' \<mapsto> ''/site/foo/dist/foo.js''],
                  headers = Map.empty, written = []\<rparr>"

text \<open>
  The resources object the constructor makes for a mode, the descriptor and the registry
  entry of package \<open>foo\<close>, an installation where package \<open>foo\<close> registers a widget
  class, a provider whose component list names the widgets twice, and the state before
  a call.
\<close>

definition default_resources :: "string \<Rightarrow> resources" where
  "default_resources m = \<lparr>mode = m, minified = True,
     js_components = [''bokeh'', ''bokeh-widgets'', ''bokeh-tables'', ''bokeh-gl'']\<rparr>"

definition foo_embed :: ExtensionEmbed where
  "foo_embed = \<lparr>artifact_path = ''/site/foo/dist/foo.js'',
                 server_url = ''http://localhost:5006/static/extensions/foo@^1.2.0/dist/foo.js'',
                 cdn_url = Some ''https://unpkg.com/foo@^1.2.0/dist/foo.js''\<rparr>"

definition foo_registry :: "string \<rightharpoonup> string" where
  "foo_registry = [''foo@^1.2.0/dist/foo.js'' \<mapsto> ''/site/foo/dist/foo.js'']"

definition widget_ext_env :: env where
  "widget_ext_env = base_env
     \<lparr>model_class_reverse_map :=
        [plain_class ''FooGlyph'' ''foo.models'',
         (plain_class ''FooSlider'' ''foo.widgets'')\<lparr>is_Widget := True\<rparr>]\<rparr>"

definition doubled_resources :: resources where
  "doubled_resources = \<lparr>mode = ''cdn'', minified = True,
     js_components = [''bokeh'', ''bokeh-widgets'', ''bokeh-widgets'']\<rparr>"

definition start :: state where
  "start = \<lparr>warnings = [], servables = Map.empty\<rparr>"

text \<open>
  A store of empty lists, a bundle built on four different lists of it, as
  \<open>Bundle()\<close> builds it, and a bundle built as \<open>Bundle.of(xs, xs, [], [], None)\<close>,
  whose script files and inline scripts are one list.
\<close>

definition empty_store :: store where
  "empty_store = \<lparr>lists = (\<lambda>r. []), dicts = (\<lambda>r. Map.empty)\<rparr>"

definition fresh_bundle :: Bundle_object where
  "fresh_bundle = \<lparr>js_files_ref = 0, js_raw_ref = 1, css_files_ref = 2, css_raw_ref = 3,
                     hashes_ref = None\<rparr>"

definition shared_bundle :: Bundle_object where
  "shared_bundle = \<lparr>js_files_ref = 0, js_raw_ref = 0, css_files_ref = 1, css_raw_ref = 2,
                      hashes_ref = None\<rparr>"

section \<open>Properties of the extension resolver\<close>

lemmas env_simps = base_env_def plain_class_def model_of_def minified_resources_def
lemmas path_simps = dirname_def join_def join3_def startswith_sep_def top_level_def
lemmas objs_simps = all_objs_def set_union_def

lemma find_artifact_raises:
  "exts \<noteq> [] \<Longrightarrow> find_artifact e base name exts = Inl (NameError ''artifact'')"
  by (cases exts) (simp_all add: exists_artifact_def)

lemma resolve_package_no_metadata:
  assumes "module_file e name = Some (Some file)"
    and "\<not> exists e (join (dirname file) ''package.json'')"
    and "exts \<noteq> []"
  shows "resolve_package e exts name = Inl (NameError ''artifact'')"
  using assms by (simp add: resolve_package_def find_artifact_raises)

text \<open>
  A package whose directory holds a metadata file that declares \<open>name\<close> and
  \<open>main\<close>: the resolver takes \<open>module\<close> as the entry point when the metadata
  declares it and \<open>main\<close> otherwise, and \<open>latest\<close> as the version when the metadata
  declares none. The artifact path is the package root joined with the entry point, the
  server path is \<open>name@^version/entry\<close>, the CDN URL is
  \<open>https://unpkg.com/name@^version/entry\<close>, and the server URL of the descriptor is
  the server path under \<open>static/extensions/\<close>.
\<close>

lemma metadata_descriptor:
  assumes "module_file e name = Some (Some file)"
    and "exists e (join (dirname file) ''package.json'')"
    and "json_load e (join (dirname file) ''package.json'') = Inr pkg"
    and "pkg ''name'' = Some pkg_name"
    and "pkg ''main'' = Some dflt"
    and "version = (case pkg ''version'' of None \<Rightarrow> ''latest'' | Some v \<Rightarrow> v)"
    and "entry = (case pkg ''module'' of None \<Rightarrow> dflt | Some m \<Rightarrow> m)"
  shows "resolve_package e extensions name =
           Inr (join (dirname file) entry,
                pkg_name @ ''@^'' @ version @ ''/'' @ entry,
                Some (''https://unpkg.com/'' @ pkg_name @ ''@^'' @ version @ ''/'' @ entry))
         \<and> describe e extensions name =
           Inr \<lparr>artifact_path = join (dirname file) entry,
                server_url = DEFAULT_SERVER_HTTP_URL e @ ''static/extensions/''
                             @ pkg_name @ ''@^'' @ version @ ''/'' @ entry,
                cdn_url = Some (''https://unpkg.com/'' @ pkg_name @ ''@^'' @ version @ ''/'' @ entry)\<rparr>"
  using assms by (simp add: resolve_package_def describe_def embed_of_def Let_def)

text \<open>
  The case the specification names: for \<open>name=foo, version=1.2.0, main=dist/foo.js\<close>
  the resolver returns one descriptor and registers its server path.
\<close>

lemma foo_descriptor:
  "bundle_extensions foo_env (Some foo_objs) minified_resources Map.empty =
   (Inr [\<lparr>artifact_path = ''/site/foo/dist/foo.js'',
          server_url = ''http://localhost:5006/static/extensions/foo@^1.2.0/dist/foo.js'',
          cdn_url = Some ''https://unpkg.com/foo@^1.2.0/dist/foo.js''\<rparr>],
    [''foo@^1.2.0/dist/foo.js'' \<mapsto> ''/site/foo/dist/foo.js''])"
proof -
  have 1: "module_file foo_env ''foo'' = Some (Some ''/site/foo/__init__.py'')"
    by (simp add: foo_env_def)
  have 2: "exists foo_env (join (dirname ''/site/foo/__init__.py'') ''package.json'')"
    by (simp add: foo_env_def exists_def path_simps)
  have 3: "json_load foo_env (join (dirname ''/site/foo/__init__.py'') ''package.json'') = Inr foo_pkg"
    by (simp add: foo_env_def json_load_def read_file_def path_simps)
  have 4: "foo_pkg ''name'' = Some ''foo''" and 5: "foo_pkg ''main'' = Some ''dist/foo.js''"
    and 6: "''1.2.0'' = (case foo_pkg ''version'' of None \<Rightarrow> ''latest'' | Some v \<Rightarrow> v)"
    and 7: "''dist/foo.js'' = (case foo_pkg ''module'' of None \<Rightarrow> ''dist/foo.js'' | Some m \<Rightarrow> m)"
    by (simp_all add: foo_pkg_def)
  have r: "resolve_package foo_env [''.min.js'', ''.js''] ''foo'' =
      Inr (''/site/foo/dist/foo.js'', ''foo@^1.2.0/dist/foo.js'',
           Some ''https://unpkg.com/foo@^1.2.0/dist/foo.js'')"
    using metadata_descriptor [OF 1 2 3 4 5 6 7, of "[''.min.js'', ''.js'']"]
    by (simp add: path_simps)
  have d: "DEFAULT_SERVER_HTTP_URL foo_env = ''http://localhost:5006/''"
    by (simp add: foo_env_def base_env_def)
  show ?thesis
    by (simp add: bundle_extensions_def foo_objs_def env_simps objs_simps top_level_def r d)
qed

text \<open>
  Claim C1. The metadata of package \<open>foo\<close> declares its name, its version and its
  entry point, as \<open>module\<close>. The claim expects the descriptor of that entry point.
  Line 254 is \<open>pkg.get("module", pkg["main"])\<close>: the default \<open>pkg["main"]\<close> is
  evaluated before the call, and the resolver raises \<open>KeyError\<close> although the default
  is not needed. With a \<open>main\<close> field added to the same metadata the resolver
  returns the descriptor of \<open>module\<close> and does not use \<open>main\<close>.
\<close>

theorem module_only_raises_KeyError:
  "bundle_extensions esm_env (Some foo_objs) minified_resources Map.empty
     = (Inl (KeyError ''main''), Map.empty)
   \<and> bundle_extensions dual_env (Some foo_objs) minified_resources Map.empty
     = (Inr [\<lparr>artifact_path = ''/site/foo/dist/foo.mjs'',
              server_url = ''http://localhost:5006/static/extensions/foo@^1.2.0/dist/foo.mjs'',
              cdn_url = Some ''https://unpkg.com/foo@^1.2.0/dist/foo.mjs''\<rparr>],
        [''foo@^1.2.0/dist/foo.mjs'' \<mapsto> ''/site/foo/dist/foo.mjs''])"
  by (simp add: bundle_extensions_def foo_objs_def env_simps objs_simps
      resolve_package_def esm_env_def dual_env_def exists_def json_load_def read_file_def
      esm_pkg_def dual_pkg_def path_simps Let_def)

text \<open>
  Claim C2. Package \<open>bar\<close> has no metadata file and no \<open>dist/bar.min.js\<close>, it has
  \<open>dist/bar.js\<close>, and minified resources are requested. The claim expects the
  descriptor of \<open>dist/bar.js\<close>; the resolver raises \<open>NameError\<close> at the first
  candidate file.
\<close>

theorem unminified_fallback_raises:
  "exists bar_env ''/site/bar/dist/bar.js'' \<and> \<not> exists bar_env ''/site/bar/dist/bar.min.js''
   \<and> \<not> exists bar_env ''/site/bar/package.json''
   \<and> bundle_extensions bar_env (Some bar_objs) minified_resources Map.empty
       = (Inl (NameError ''artifact''), Map.empty)"
  by (simp add: bundle_extensions_def bar_objs_def env_simps objs_simps
      resolve_package_def bar_env_def exists_def exists_artifact_def path_simps)

text \<open>
  Claim C3. Package \<open>bar\<close> has neither a metadata file nor a built file. The claim
  expects the \<open>ValueError\<close> of the loop's \<open>else\<close> branch; the resolver raises
  \<open>NameError\<close> at the first candidate file and never reaches that branch. No
  descriptor is returned and the registry is unchanged.
\<close>

theorem unresolvable_raises_NameError:
  "bundle_extensions bare_env (Some bar_objs) (minified_resources\<lparr>minified := False\<rparr>) Map.empty
   = (Inl (NameError ''artifact''), Map.empty)"
  by (simp add: bundle_extensions_def bar_objs_def env_simps objs_simps
      resolve_package_def bare_env_def exists_def exists_artifact_def path_simps)

lemma fresh_names_set: "set (fresh_names seen ns) = set ns - seen"
  by (induction ns arbitrary: seen) auto

lemma fresh_names_distinct: "distinct (fresh_names seen ns)"
  by (induction ns arbitrary: seen) (auto simp: fresh_names_set)

lemma extensions_loop_skip:
  "\<not> eligible c \<Longrightarrow>
   extensions_loop e exts (c # cs) names bundles reg = extensions_loop e exts cs names bundles reg"
  by (auto simp: eligible_def Let_def)

lemma extensions_loop_filter:
  "extensions_loop e exts (filter eligible cs) names bundles reg
   = extensions_loop e exts cs names bundles reg"
proof (induction cs arbitrary: names bundles reg)
  case Nil
  show ?case by simp
next
  case (Cons c cs)
  show ?case
  proof (cases "eligible c")
    case True
    then have f: "filter eligible (c # cs) = c # filter eligible cs" by simp
    show ?thesis unfolding f
      by (simp add: Let_def Cons.IH fun_upd_def split: sum.splits prod.splits)
  next
    case False
    then show ?thesis using Cons.IH by (simp add: extensions_loop_skip del: extensions_loop.simps)
  qed
qed

lemma extensions_loop_success:
  "extensions_loop e exts cs names bundles reg = (Inr out, reg') \<Longrightarrow>
   \<exists>new. out = bundles @ new \<and>
     map (describe e exts) (fresh_names names (map (\<lambda>c. top_level (view_module c)) (filter eligible cs)))
     = map Inr new"
proof (induction cs arbitrary: names bundles reg)
  case Nil
  then show ?case by simp
next
  case (Cons c cs)
  show ?case
  proof (cases "eligible c \<and> top_level (view_module c) \<notin> names")
    case False
    then have "extensions_loop e exts cs names bundles reg = (Inr out, reg')"
      using Cons.prems by (auto simp: eligible_def Let_def split: if_splits)
    from Cons.IH[OF this] False show ?thesis by (auto simp: eligible_def)
  next
    case True
    let ?n = "top_level (view_module c)"
    from True Cons.prems obtain a sp cu where
      r: "resolve_package e exts ?n = Inr (a, sp, cu)" and
      l: "extensions_loop e exts cs (insert ?n names)
            (bundles @ [\<lparr>artifact_path = a, server_url = DEFAULT_SERVER_HTTP_URL e @ ''static/extensions'' @ ''/'' @ sp, cdn_url = cu\<rparr>])
            (reg(sp \<mapsto> a)) = (Inr out, reg')"
      by (auto simp: eligible_def Let_def split: sum.splits prod.splits)
    from Cons.IH[OF l] obtain new where
      n: "out = (bundles @ [\<lparr>artifact_path = a, server_url = DEFAULT_SERVER_HTTP_URL e @ ''static/extensions'' @ ''/'' @ sp, cdn_url = cu\<rparr>]) @ new"
      and m: "map (describe e exts) (fresh_names (insert ?n names) (map (\<lambda>c. top_level (view_module c)) (filter eligible cs))) = map Inr new"
      by blast
    have d: "describe e exts ?n = Inr \<lparr>artifact_path = a, server_url = DEFAULT_SERVER_HTTP_URL e @ ''static/extensions'' @ ''/'' @ sp, cdn_url = cu\<rparr>"
      using r by (simp add: describe_def embed_of_def)
    show ?thesis using True n m d by simp
  qed
qed

text \<open>
  Claim C7. When the resolver returns, its descriptors are the descriptions of the
  package names of the resolved candidates, one for each distinct name, in the order
  in which the names are first met. A candidate with an inline implementation, and a
  candidate of the core package, contributes nothing: the resolver does what it does
  on the candidates without them.
\<close>

theorem one_descriptor_per_package:
  assumes run: "bundle_extensions e objs res reg = (Inr out, reg')"
    and cands: "cands = (case objs of Some os \<Rightarrow> map model_cls (all_objs os)
                                    | None \<Rightarrow> model_class_reverse_map e)"
    and exts: "exts = (if minified res then [''.min.js'', ''.js''] else [''.js''])"
  shows "distinct (package_names cands)
     \<and> set (package_names cands) = (\<lambda>c. top_level (view_module c)) ` {c \<in> set cands. eligible c}
     \<and> map (describe e exts) (package_names cands) = map Inr out
     \<and> length out = card ((\<lambda>c. top_level (view_module c)) ` {c \<in> set cands. eligible c})
     \<and> bundle_extensions e objs res reg = extensions_loop e exts (filter eligible cands) {} [] reg"
proof -
  have loop: "extensions_loop e exts cands {} [] reg = (Inr out, reg')"
    using run cands exts by (simp add: bundle_extensions_def)
  have d: "distinct (package_names cands)"
    by (simp add: package_names_def fresh_names_distinct)
  have s: "set (package_names cands) = (\<lambda>c. top_level (view_module c)) ` {c \<in> set cands. eligible c}"
    by (auto simp: package_names_def fresh_names_set)
  from extensions_loop_success[OF loop]
  have m: "map (describe e exts) (package_names cands) = map Inr out"
    by (simp add: package_names_def)
  have "length out = length (package_names cands)"
    using arg_cong[OF m, of length] by simp
  also have "\<dots> = card (set (package_names cands))"
    using d by (simp add: distinct_card)
  finally have l: "length out = card ((\<lambda>c. top_level (view_module c)) ` {c \<in> set cands. eligible c})"
    using s by simp
  have f: "bundle_extensions e objs res reg = extensions_loop e exts (filter eligible cands) {} [] reg"
    using cands exts by (simp add: bundle_extensions_def extensions_loop_filter)
  from d s m l f show ?thesis by blast
qed

text \<open>
  Four candidates, two of them of package \<open>foo\<close>, one of the core package and one
  with an inline implementation of a package that is not installed: one descriptor.
\<close>

theorem one_descriptor_per_package_witness:
  "bundle_extensions foo_env (Some mixed_objs) minified_resources Map.empty =
     (Inr [\<lparr>artifact_path = ''/site/foo/dist/foo.js'',
            server_url = ''http://localhost:5006/static/extensions/foo@^1.2.0/dist/foo.js'',
            cdn_url = Some ''https://unpkg.com/foo@^1.2.0/dist/foo.js''\<rparr>],
      [''foo@^1.2.0/dist/foo.js'' \<mapsto> ''/site/foo/dist/foo.js''])
   \<and> package_names (map model_cls (all_objs mixed_objs)) = [''foo'']
   \<and> describe foo_env [''.min.js'', ''.js''] ''foo'' =
       Inr \<lparr>artifact_path = ''/site/foo/dist/foo.js'',
            server_url = ''http://localhost:5006/static/extensions/foo@^1.2.0/dist/foo.js'',
            cdn_url = Some ''https://unpkg.com/foo@^1.2.0/dist/foo.js''\<rparr>"
proof -
  have r: "resolve_package foo_env [''.min.js'', ''.js''] ''foo'' =
      Inr (''/site/foo/dist/foo.js'', ''foo@^1.2.0/dist/foo.js'',
           Some ''https://unpkg.com/foo@^1.2.0/dist/foo.js'')"
    by (simp add: resolve_package_def foo_env_def base_env_def exists_def json_load_def
        read_file_def foo_pkg_def path_simps Let_def)
  have d: "DEFAULT_SERVER_HTTP_URL foo_env = ''http://localhost:5006/''"
    by (simp add: foo_env_def base_env_def)
  have run: "bundle_extensions foo_env (Some mixed_objs) minified_resources Map.empty =
     (Inr [\<lparr>artifact_path = ''/site/foo/dist/foo.js'',
            server_url = ''http://localhost:5006/static/extensions/foo@^1.2.0/dist/foo.js'',
            cdn_url = Some ''https://unpkg.com/foo@^1.2.0/dist/foo.js''\<rparr>],
      [''foo@^1.2.0/dist/foo.js'' \<mapsto> ''/site/foo/dist/foo.js''])"
    by (simp add: bundle_extensions_def mixed_objs_def env_simps objs_simps top_level_def r d)
  have n: "package_names (map model_cls (all_objs mixed_objs)) = [''foo'']"
    by (simp add: package_names_def eligible_def mixed_objs_def env_simps objs_simps top_level_def)
  have m: "minified minified_resources" by (simp add: minified_resources_def)
  from one_descriptor_per_package[OF run refl refl] n m run show ?thesis
    by simp
qed

section \<open>Properties of bundle assembly\<close>


text \<open>Package \<open>foo\<close> in its installation: what the resolver and the detector compute.\<close>

lemma foo_resolves:
  "resolve_package foo_env [''.min.js'', ''.js''] ''foo'' =
      Inr (''/site/foo/dist/foo.js'', ''foo@^1.2.0/dist/foo.js'',
           Some ''https://unpkg.com/foo@^1.2.0/dist/foo.js'')"
  by (simp add: resolve_package_def foo_env_def base_env_def exists_def json_load_def
      read_file_def foo_pkg_def path_simps Let_def)

lemma foo_url: "DEFAULT_SERVER_HTTP_URL foo_env = ''http://localhost:5006/''"
  by (simp add: foo_env_def base_env_def)

lemma foo_fields:
  "settings_override foo_env = None"
  "Resources_init foo_env m = Inr (default_resources m)"
  "res_js_files foo_env r = map (\<lambda>c. c @ ''.min.js'') (js_components r)"
  "res_js_raw foo_env r = []"
  "res_css_files foo_env r = []"
  "res_css_raw foo_env r = []"
  "res_hashes foo_env r = Map.empty"
  "model_class_reverse_map foo_env = []"
  "bundle_models foo_env ms = None"
  by (simp_all add: foo_env_def base_env_def default_resources_def)

lemma foo_run:
  "minified r \<Longrightarrow>
   bundle_extensions foo_env (Some foo_objs) r Map.empty = (Inr [foo_embed], foo_registry)"
  by (simp add: bundle_extensions_def foo_objs_def plain_class_def model_of_def objs_simps
      top_level_def foo_resolves foo_url foo_embed_def foo_registry_def)

lemma foo_flags: "feature_flags foo_env (Some foo_objs) = (False, False, False)"
  by (simp add: foo_objs_def env_simps objs_simps webgl_plot_def
      feature_flags_def use_widgets_def use_tables_def use_gl_def ext_use_widgets_def
      ext_use_tables_def query_extensions_def foo_env_def top_level_def)

lemma foo_pruned:
  "prune (False, False, False) (default_resources m)
   = \<lparr>mode = m, minified = True, js_components = [''bokeh'']\<rparr>"
  by (simp add: prune_def remove_component_def default_resources_def)


lemma foo_code: "implementation_code foo_env (Some foo_objs) = []"
  by (simp add: implementation_code_def foo_env_def base_env_def foo_objs_def)


lemma foo_single:
  "bundle_for_objs_and_resources foo_env (Some foo_objs) (PyResources (default_resources ''cdn'')) start
   = (Inr \<lparr>js_files = [Some ''bokeh.min.js'', Some ''https://unpkg.com/foo@^1.2.0/dist/foo.js''],
            js_raw = [], css_files = [], css_raw = [], hashes = Some Map.empty\<rparr>,
      start\<lparr>servables := foo_registry\<rparr>)"
  by (simp add: bundle_for_objs_and_resources_def settings_resources_def coerce_resources_def
      extension_scripts_def get_mode_def foo_flags foo_pruned foo_run foo_code start_def
      foo_embed_def foo_fields)
    (simp add: default_resources_def)

text \<open>\<open>_any\<close> and \<open>_query_extensions\<close> in terms of the referenced models.\<close>

lemma set_set_union: "set (set_union acc xs) = set acc \<union> set xs"
  unfolding set_union_def by (induction xs arbitrary: acc) auto

lemma set_fold_roots:
  "set (fold (\<lambda>root ys. set_union ys root) roots acc) = set acc \<union> \<Union> (set ` set roots)"
  by (induction roots arbitrary: acc) (auto simp: set_set_union)

lemma set_all_objs_from:
  "set (all_objs_from acc objs) = set acc \<union> \<Union> (refs_of ` set objs)"
proof (induction acc objs rule: all_objs_from.induct)
  case (1 acc)
  show ?case by simp
next
  case (2 acc roots objs)
  then show ?case by (simp add: set_fold_roots Un_assoc)
next
  case (3 acc refs objs)
  then show ?case by (simp add: set_set_union Un_assoc)
qed

lemma set_all_objs: "set (all_objs objs) = \<Union> (refs_of ` set objs)"
  by (simp add: all_objs_def set_all_objs_from)

lemma any_obj_refs: "any_obj objs query \<longleftrightarrow> (\<exists>ob \<in> set objs. \<exists>m \<in> refs_of ob. query m)"
  by (induction objs query rule: any_obj.induct) (auto simp: list_ex_iff)

lemma any_obj_iff: "any_obj objs query \<longleftrightarrow> list_ex query (all_objs objs)"
  by (auto simp: any_obj_refs set_all_objs list_ex_iff)

lemma query_loop_iff:
  "query_loop e query ms names \<longleftrightarrow>
   list_ex (\<lambda>m. top_level (view_module (model_cls m)) \<notin> names \<and> defines_in_package e query m) ms"
proof (induction ms arbitrary: names)
  case Nil
  show ?case by simp
next
  case (Cons m ms)
  let ?n = "top_level (view_module (model_cls m))"
  let ?hit = "list_ex (\<lambda>c. prefix ?n (cls_module c) \<and> query c) (model_class_reverse_map e)"
  consider (skip) "\<not> eligible (model_cls m) \<or> ?n \<in> names"
    | (hit) "eligible (model_cls m)" "?n \<notin> names" "?hit"
    | (miss) "eligible (model_cls m)" "?n \<notin> names" "\<not> ?hit"
    by blast
  then show ?case
  proof cases
    case skip
    then have "query_loop e query (m # ms) names = query_loop e query ms names"
      by (auto simp: eligible_def Let_def)
    with skip Cons.IH show ?thesis
      by (auto simp: defines_in_package_def)
  next
    case hit
    then have "query_loop e query (m # ms) names"
      by (simp add: eligible_def Let_def)
    with hit show ?thesis
      by (simp add: defines_in_package_def)
  next
    case miss
    then have step: "query_loop e query (m # ms) names = query_loop e query ms (insert ?n names)"
      by (simp add: eligible_def Let_def)
    have same: "(top_level (view_module (model_cls m')) \<notin> insert ?n names \<and> defines_in_package e query m')
        = (top_level (view_module (model_cls m')) \<notin> names \<and> defines_in_package e query m')" for m'
      using miss(3) by (auto simp: defines_in_package_def)
    from miss have here: "\<not> defines_in_package e query m"
      by (simp add: defines_in_package_def)
    show ?thesis
      unfolding step Cons.IH same using here by simp
  qed
qed

lemma query_extensions_iff:
  "query_extensions e objs query \<longleftrightarrow> list_ex (defines_in_package e query) (all_objs objs)"
  by (simp add: query_extensions_def query_loop_iff)

lemma remove_component_unused:
  "remove_component False c r = r\<lparr>js_components := remove1 c (js_components r)\<rparr>"
  by (simp add: remove_component_def remove1_idem)

lemma prune_all_distinct:
  assumes "distinct (js_components r)"
  shows "prune (False, False, False) r
         = r\<lparr>js_components := filter (\<lambda>c. c \<notin> optional_components) (js_components r)\<rparr>"
proof -
  have "remove1 ''bokeh-gl'' (remove1 ''bokeh-tables'' (remove1 ''bokeh-widgets'' (js_components r)))
        = filter (\<lambda>c. c \<notin> optional_components) (js_components r)"
    using assms
    by (simp add: distinct_remove1_removeAll removeAll_filter_not_eq optional_components_def
        conj_commute cong: filter_cong) (rule filter_cong, auto)
  then show ?thesis
    by (simp add: prune_def remove_component_unused)
qed

lemma bundle_script_files:
  assumes "script_provider e arg s = Some r"
    and "bundle_for_objs_and_resources e objs arg s = (Inr b, s')"
  shows "prefix (map Some (res_js_files e (prune (feature_flags e objs) r))) (js_files b)"
  using assms
  by (auto simp: script_provider_def bundle_for_objs_and_resources_def Let_def
      split: sum.splits prod.splits)


text \<open>
  Claim C6, as amended. For a non-empty \<open>objs\<close> whose referenced models hold no
  widget, no table widget and no \<open>webgl\<close> plot, and whose third-party packages
  register no widget class and no table-widget class, the three flags are false. When
  the component list of the script provider names no component twice, the copy of the
  provider loses \<open>bokeh-widgets\<close>, \<open>bokeh-tables\<close> and \<open>bokeh-gl\<close>, and the
  script files of every bundle the call returns start with the files of that copy.
\<close>

theorem unused_features_pruned:
  assumes "objs \<noteq> []"
    and "\<not> list_ex needs_optional (all_objs objs)"
    and "\<not> list_ex (defines_in_package e is_Widget) (all_objs objs)"
    and "\<not> list_ex (defines_in_package e is_TableWidget) (all_objs objs)"
    and "distinct (js_components r)"
    and "r' = r\<lparr>js_components := filter (\<lambda>c. c \<notin> optional_components) (js_components r)\<rparr>"
  shows "feature_flags e (Some objs) = (False, False, False)
     \<and> prune (feature_flags e (Some objs)) r = r'
     \<and> (\<forall>arg s b s'.
          script_provider e arg s = Some r \<and>
          bundle_for_objs_and_resources e (Some objs) arg s = (Inr b, s')
          \<longrightarrow> prefix (map Some (res_js_files e r')) (js_files b))"
proof -
  from assms(2) have none:
    "\<not> list_ex (\<lambda>m. is_Widget (model_cls m)) (all_objs objs)"
    "\<not> list_ex (\<lambda>m. is_TableWidget (model_cls m)) (all_objs objs)"
    "\<not> list_ex webgl_plot (all_objs objs)"
    by (auto simp: needs_optional_def list_ex_iff)
  obtain x xs where objs: "objs = x # xs"
    using assms(1) by (cases objs) auto
  have w: "\<not> use_widgets e objs"
    using none(1) assms(3)
    by (simp add: use_widgets_def ext_use_widgets_def any_obj_iff query_extensions_iff)
  have t: "\<not> use_tables e objs"
    using none(2) assms(4)
    by (simp add: use_tables_def ext_use_tables_def any_obj_iff query_extensions_iff)
  have g: "\<not> use_gl objs"
    using none(3) by (simp add: use_gl_def any_obj_iff)
  have flags: "feature_flags e (Some objs) = (False, False, False)"
    using w t g unfolding objs by (simp add: feature_flags_def)
  have pruned: "prune (feature_flags e (Some objs)) r = r'"
    using assms(5,6) by (simp add: flags prune_all_distinct)
  have files: "prefix (map Some (res_js_files e r')) (js_files b)"
    if "script_provider e arg s = Some r"
      and "bundle_for_objs_and_resources e (Some objs) arg s = (Inr b, s')" for arg s b s'
    using bundle_script_files[OF that] pruned by simp
  from flags pruned files show ?thesis by blast
qed

theorem unused_features_pruned_witness:
  "feature_flags foo_env (Some foo_objs) = (False, False, False)
   \<and> prune (feature_flags foo_env (Some foo_objs)) (default_resources ''cdn'')
       = (default_resources ''cdn'')\<lparr>js_components := [''bokeh'']\<rparr>
   \<and> (\<exists>b s'. bundle_for_objs_and_resources foo_env (Some foo_objs)
                 (PyResources (default_resources ''cdn'')) start = (Inr b, s')
          \<and> prefix [Some ''bokeh.min.js''] (js_files b))"
proof -
  have 1: "foo_objs \<noteq> []" by (simp add: foo_objs_def)
  have 2: "\<not> list_ex needs_optional (all_objs foo_objs)"
    by (simp add: foo_objs_def env_simps objs_simps needs_optional_def webgl_plot_def)
  have 3: "\<not> list_ex (defines_in_package foo_env is_Widget) (all_objs foo_objs)"
    and 4: "\<not> list_ex (defines_in_package foo_env is_TableWidget) (all_objs foo_objs)"
    by (simp_all add: defines_in_package_def foo_fields list_ex_iff)
  have 5: "distinct (js_components (default_resources ''cdn''))"
    by (simp add: default_resources_def)
  have 6: "(default_resources ''cdn'')\<lparr>js_components := [''bokeh'']\<rparr>
      = (default_resources ''cdn'')\<lparr>js_components :=
           filter (\<lambda>c. c \<notin> optional_components) (js_components (default_resources ''cdn''))\<rparr>"
    by (simp add: default_resources_def optional_components_def)
  have p: "script_provider foo_env (PyResources (default_resources ''cdn'')) start
           = Some (default_resources ''cdn'')"
    by (simp add: script_provider_def coerce_resources_def settings_resources_def foo_fields)
  have f: "res_js_files foo_env ((default_resources ''cdn'')\<lparr>js_components := [''bokeh'']\<rparr>)
           = [''bokeh.min.js'']"
    by (simp add: foo_fields)
  note t = unused_features_pruned [OF 1 2 3 4 5 6]
  from t have a: "feature_flags foo_env (Some foo_objs) = (False, False, False)"
    by (rule conjunct1)
  from t have b: "prune (feature_flags foo_env (Some foo_objs)) (default_resources ''cdn'')
       = (default_resources ''cdn'')\<lparr>js_components := [''bokeh'']\<rparr>"
    by (rule conjunct1 [OF conjunct2])
  from t have c: "\<forall>arg s b s'.
          script_provider foo_env arg s = Some (default_resources ''cdn'') \<and>
          bundle_for_objs_and_resources foo_env (Some foo_objs) arg s = (Inr b, s')
          \<longrightarrow> prefix (map Some (res_js_files foo_env ((default_resources ''cdn'')\<lparr>js_components := [''bokeh'']\<rparr>))) (js_files b)"
    by (rule conjunct2 [OF conjunct2])
  have d: "prefix [Some ''bokeh.min.js'']
      (js_files \<lparr>js_files = [Some ''bokeh.min.js'', Some ''https://unpkg.com/foo@^1.2.0/dist/foo.js''],
            js_raw = [], css_files = [], css_raw = [], hashes = Some Map.empty\<rparr>)"
    using c [rule_format, OF conjI [OF p foo_single]] unfolding f by simp
  show ?thesis
    using a b d foo_single by (intro conjI exI) assumption+
qed

text \<open>
  Claim C6 as stated fails in two ways. A referenced model of package \<open>foo\<close> that is
  no widget makes \<open>use_widgets\<close> true when \<open>foo\<close> registers a widget class, and
  \<open>bokeh-widgets\<close> stays. And \<open>list.remove\<close> takes out one occurrence: a component
  named twice stays once.
\<close>

theorem extension_widget_counterexample:
  "foo_objs \<noteq> [] \<and> \<not> list_ex needs_optional (all_objs foo_objs)
   \<and> feature_flags widget_ext_env (Some foo_objs) = (True, False, False)
   \<and> distinct (js_components minified_resources)
   \<and> ''bokeh-widgets'' \<in> set (js_components (prune (feature_flags widget_ext_env (Some foo_objs)) minified_resources))
   \<and> ''bokeh-widgets'' \<in> set (js_components (prune (False, False, False) doubled_resources))"
  by (simp add: foo_objs_def env_simps objs_simps needs_optional_def webgl_plot_def
      feature_flags_def use_widgets_def use_tables_def use_gl_def ext_use_widgets_def
      ext_use_tables_def query_extensions_def widget_ext_env_def top_level_def
      prune_def remove_component_def doubled_resources_def)




text \<open>
  Claim C8. A pair with a script provider and no style provider: the warning is
  emitted, then \<open>resources.mode\<close> is read off the tuple and raises
  \<open>AttributeError\<close>. The claim expects a bundle. The sibling pair, with a style
  provider only, does return one.
\<close>

theorem script_only_pair_raises:
  "bundle_for_objs_and_resources base_env None (PyTuple [PyResources minified_resources, PyNone]) start
     = (Inl (AttributeError ''mode''), start\<lparr>warnings := [CSS_WARNING]\<rparr>)
   \<and> bundle_for_objs_and_resources base_env None (PyTuple [PyNone, PyResources minified_resources]) start
     = (Inr \<lparr>js_files = [], js_raw = [], css_files = [], css_raw = [], hashes = None\<rparr>,
        start\<lparr>warnings := [JS_WARNING]\<rparr>)"
  by (simp add: bundle_for_objs_and_resources_def settings_resources_def coerce_resources_def
      base_env_def resources_or_none_def as_option_def warn_def start_def extension_scripts_def
      bundle_extensions_def get_mode_def feature_flags_def prune_def remove_component_def
      implementation_code_def minified_resources_def)

text \<open>No pair with a script provider returns a bundle.\<close>

lemma pair_with_script_provider_fails:
  assumes "settings_override e = None" and "resources_or_none c"
  shows "\<exists>err s'. bundle_for_objs_and_resources e objs (PyTuple [PyResources r, c]) s = (Inl err, s')"
  using assms
  by (auto simp: bundle_for_objs_and_resources_def settings_resources_def coerce_resources_def
      resources_or_none_def as_option_def extension_scripts_def get_mode_def Let_def
      split: sum.splits prod.splits pyval.splits)

section \<open>Properties of the bundle\<close>

text \<open>
  Claim C10, as amended. \<open>add\<close> of a value that is none of the four artifact classes
  leaves the store as it is: every list and every dictionary. \<open>add\<close> of one of the
  four appends one entry to the list object of that class's attribute and leaves every
  other list object and every dictionary as they are. So each of the other three lists
  of the bundle is unchanged when it is not the same object as the list appended to.
\<close>

theorem add_frame:
  "add st self OtherArtifact = st
   \<and> lists (add st self (ScriptRef url t)) (js_files_ref self) = lists st (js_files_ref self) @ [Some url]
   \<and> (\<forall>r. r \<noteq> js_files_ref self \<longrightarrow> lists (add st self (ScriptRef url t)) r = lists st r)
   \<and> dicts (add st self (ScriptRef url t)) = dicts st
   \<and> lists (add st self (Script content t)) (js_raw_ref self) = lists st (js_raw_ref self) @ [Some content]
   \<and> (\<forall>r. r \<noteq> js_raw_ref self \<longrightarrow> lists (add st self (Script content t)) r = lists st r)
   \<and> dicts (add st self (Script content t)) = dicts st
   \<and> lists (add st self (StyleRef url)) (css_files_ref self) = lists st (css_files_ref self) @ [Some url]
   \<and> (\<forall>r. r \<noteq> css_files_ref self \<longrightarrow> lists (add st self (StyleRef url)) r = lists st r)
   \<and> dicts (add st self (StyleRef url)) = dicts st
   \<and> lists (add st self (Style content)) (css_raw_ref self) = lists st (css_raw_ref self) @ [Some content]
   \<and> (\<forall>r. r \<noteq> css_raw_ref self \<longrightarrow> lists (add st self (Style content)) r = lists st r)
   \<and> dicts (add st self (Style content)) = dicts st"
  by (simp add: list_append_def)

text \<open>
  A bundle on four different lists: adding a script reference appends to the script
  files and leaves the inline scripts, the style files and the inline styles empty.
\<close>

theorem add_frame_witness:
  "lists (add empty_store fresh_bundle (ScriptRef ''a.js'' ''text/javascript'')) (js_files_ref fresh_bundle)
     = [Some ''a.js'']
   \<and> lists (add empty_store fresh_bundle (ScriptRef ''a.js'' ''text/javascript'')) (js_raw_ref fresh_bundle) = []
   \<and> lists (add empty_store fresh_bundle (ScriptRef ''a.js'' ''text/javascript'')) (css_files_ref fresh_bundle) = []
   \<and> lists (add empty_store fresh_bundle (ScriptRef ''a.js'' ''text/javascript'')) (css_raw_ref fresh_bundle) = []"
proof -
  note t = add_frame [of empty_store fresh_bundle "''a.js''" "''text/javascript''"]
  have d: "js_raw_ref fresh_bundle \<noteq> js_files_ref fresh_bundle"
    "css_files_ref fresh_bundle \<noteq> js_files_ref fresh_bundle"
    "css_raw_ref fresh_bundle \<noteq> js_files_ref fresh_bundle"
    by (simp_all add: fresh_bundle_def)
  have e: "lists empty_store r = []" for r
    by (simp add: empty_store_def)
  from t have a: "lists (add empty_store fresh_bundle (ScriptRef ''a.js'' ''text/javascript''))
      (js_files_ref fresh_bundle) = lists empty_store (js_files_ref fresh_bundle) @ [Some ''a.js'']"
    by (rule conjunct1 [OF conjunct2])
  from t have f: "\<forall>r. r \<noteq> js_files_ref fresh_bundle \<longrightarrow>
      lists (add empty_store fresh_bundle (ScriptRef ''a.js'' ''text/javascript'')) r = lists empty_store r"
    by (rule conjunct1 [OF conjunct2 [OF conjunct2]])
  from a f d e show ?thesis by simp
qed

text \<open>
  Claim C10 as stated fails for a bundle whose script files and inline scripts are one
  list: adding a script reference changes the inline scripts too.
\<close>

theorem shared_list_counterexample:
  "lists empty_store (js_raw_ref shared_bundle) = []
   \<and> lists (add empty_store shared_bundle (ScriptRef ''a.js'' ''text/javascript'')) (js_raw_ref shared_bundle)
       = [Some ''a.js'']"
  by (simp add: empty_store_def shared_bundle_def list_append_def)

section \<open>Properties of the blob handler\<close>

text \<open>
  Claim C9. The handler raises \<open>HTTPError(404)\<close> exactly when the path is not in its
  registry. When the path is in the registry and the mapped location holds a file, it
  sets the content type to \<open>application/octet-stream\<close> and writes the bytes of the
  file.
\<close>

theorem blob_get:
  "(get files self path = Inl (HTTPError 404) \<longleftrightarrow> blobs self path = None)
   \<and> (\<forall>a_path content.
        blobs self path = Some a_path \<and> files a_path = Some (File content) \<longrightarrow>
        get files self path =
          Inr (self\<lparr>headers := (headers self)(''Content-Type'' \<mapsto> ''application/octet-stream''),
                    written := written self @ content\<rparr>))"
  by (auto simp: get_def read_file_def split: option.splits fsnode.splits)

theorem blob_get_witness:
  "get (fs foo_env) foo_handler ''foo@^1.2.0/dist/foo.js'' =
     Inr (foo_handler\<lparr>headers := [''Content-Type'' \<mapsto> ''application/octet-stream''],
                      written := ''export default 1''\<rparr>)
   \<and> get (fs foo_env) foo_handler ''foo@^1.2.0/dist/foo.min.js'' = Inl (HTTPError 404)"
proof -
  have 1: "blobs foo_handler ''foo@^1.2.0/dist/foo.js'' = Some ''/site/foo/dist/foo.js''"
    and 2: "fs foo_env ''/site/foo/dist/foo.js'' = Some (File ''export default 1'')"
    and 3: "blobs foo_handler ''foo@^1.2.0/dist/foo.min.js'' = None"
    by (simp_all add: foo_handler_def foo_env_def)
  from blob_get[of "fs foo_env" foo_handler "''foo@^1.2.0/dist/foo.js''"] 1 2
  have a: "get (fs foo_env) foo_handler ''foo@^1.2.0/dist/foo.js'' =
     Inr (foo_handler\<lparr>headers := (headers foo_handler)(''Content-Type'' \<mapsto> ''application/octet-stream''),
                    written := written foo_handler @ ''export default 1''\<rparr>)"
    by blast
  from blob_get[of "fs foo_env" foo_handler "''foo@^1.2.0/dist/foo.min.js''"] 3
  have b: "get (fs foo_env) foo_handler ''foo@^1.2.0/dist/foo.min.js'' = Inl (HTTPError 404)"
    by blast
  from a b show ?thesis by (simp add: foo_handler_def)
qed

text \<open>A registered path whose file is gone: the error of \<open>open\<close>, not 404.\<close>

lemma get_missing_file:
  "blobs self path = Some a_path \<Longrightarrow> files a_path = None \<Longrightarrow>
   get files self path = Inl (FileNotFoundError a_path)"
  by (simp add: get_def read_file_def)

end
